theory Spec2Isabelle
  imports Complex_Main "HOL-Library.AList"
begin

section \<open>Aurora inference runtime: \<^verbatim>\<open>src/inference/runtime/app/main.py\<close>\<close>

text \<open>
  The module keeps two globals, \<^verbatim>\<open>model\<close> and \<^verbatim>\<open>model_metadata\<close>, and a labelled
  Prometheus counter. Every function below takes the state of these globals and returns the
  new one; an exception that leaves a function is the \<open>Inl\<close> of its result. Logging, the
  latency histogram and the load-timestamp gauge read the clock and change nothing the
  handlers look at; they are left out.
\<close>

subsection \<open>Python values\<close>

text \<open>
  A Python float: a number, or one of the three values that are not numbers. \<^verbatim>\<open>json.load\<close>
  produces them from \<^verbatim>\<open>Infinity\<close>, \<^verbatim>\<open>-Infinity\<close> and \<^verbatim>\<open>NaN\<close> (which \<^verbatim>\<open>json.dump\<close>
  writes for such a float) and from a literal beyond the double range such as \<^verbatim>\<open>1e400\<close>.
\<close>

datatype pyfloat = Finite real | PosInf | NegInf | NaN

text \<open>What \<^verbatim>\<open>json.load\<close> returns. A JSON object is a Python dict, kept in insertion order.\<close>

datatype json =
    JNull
  | JBool bool
  | JInt int
  | JFloat pyfloat
  | JStr string
  | JList "json list"
  | JObj "(string \<times> json) list"

type_synonym dict = "(string \<times> json) list"

text \<open>\<^verbatim>\<open>d.get(k, default)\<close>; \<^verbatim>\<open>d.get(k)\<close> is \<open>dict_get d k JNull\<close>.\<close>

definition dict_get :: "dict \<Rightarrow> string \<Rightarrow> json \<Rightarrow> json" where
  "dict_get d k dflt = (case map_of d k of None \<Rightarrow> dflt | Some v \<Rightarrow> v)"

text \<open>\<^verbatim>\<open>d.update({...})\<close>: an existing key keeps its place and takes the new value, a new key
  goes to the end.\<close>

fun dict_update :: "dict \<Rightarrow> dict \<Rightarrow> dict" where
  "dict_update d [] = d"
| "dict_update d ((k, v) # kvs) = dict_update (AList.update k v d) kvs"

text \<open>\<^verbatim>\<open>len(inp) != expected_features\<close> compares an int with whatever the metadata file holds
  under \<^verbatim>\<open>feature_count\<close>: Python compares an int with a float or a bool by value, and
  with anything else (an infinity and NaN included) it is unequal.\<close>

fun len_eq :: "nat \<Rightarrow> json \<Rightarrow> bool" where
  "len_eq n (JInt i) = (int n = i)"
| "len_eq n (JFloat (Finite r)) = (real n = r)"
| "len_eq n (JBool b) = (n = (if b then 1 else 0))"
| "len_eq n _ = False"

subsection \<open>Exceptions\<close>

text \<open>
  \<open>HTTPException status detail\<close> is FastAPI's exception; \<open>ValidationError\<close> is pydantic's;
  \<open>PyError msg\<close> is any other exception, with its message. A detail is a literal text, the
  formatted message of the row check (\<^verbatim>\<open>Input {i} has {len(inp)} features, expected {e}\<close>)
  or \<^verbatim>\<open>str(e)\<close> of a caught exception.
\<close>

datatype exc =
    HTTPException nat detail
  | ValidationError
  | PyError string
and detail =
    Text string
  | Row_detail nat nat json
  | Str exc

text \<open>
  A body that the handler returns is rendered by \<^verbatim>\<open>JSONResponse\<close> with
  \<^verbatim>\<open>json.dumps(content, allow_nan=False)\<close>, which raises ValueError when an infinity or a
  NaN stands anywhere in the content.
\<close>

fun compliant :: "json \<Rightarrow> bool" where
  "compliant (JFloat (Finite r)) = True"
| "compliant (JFloat _) = False"
| "compliant (JList vs) = list_all compliant vs"
| "compliant (JObj kvs) = list_all compliant (map snd kvs)"
| "compliant _ = True"

text \<open>The status FastAPI sends: the exception's own status for an \<open>HTTPException\<close>, 500
  for any other exception that leaves the handler, and, when the handler returns a body,
  200 if the body renders and 500 if rendering it raises.\<close>

fun response_status :: "exc + dict \<Rightarrow> nat" where
  "response_status (Inr body) = (if compliant (JObj body) then 200 else 500)"
| "response_status (Inl (HTTPException s _)) = s"
| "response_status (Inl _) = 500"

subsection \<open>The model object, the files and the configuration\<close>

text \<open>
  The loaded model is opaque: all the module does with it is \<^verbatim>\<open>model.predict(inputs)\<close>
  and then \<^verbatim>\<open>preds.tolist()\<close>; either call may raise (\<open>Inl\<close> of the message).
\<close>

datatype ndarray = Ndarray (tolist: "string + json")

datatype model = Model (predict_of: "real list list \<Rightarrow> string + ndarray")

text \<open>
  What a load finds on disk: the path does not exist (\<^verbatim>\<open>os.path.exists\<close> is false), reading
  or decoding it raises, or it decodes to a value. What \<^verbatim>\<open>joblib.load\<close> decodes is any
  pickled object, a model or \<^verbatim>\<open>None\<close>.
\<close>

datatype 'a disk_file = Missing | Unreadable | Content 'a

record files =
  metadata_file :: "json disk_file"
  model_file :: "model option disk_file"

record config =
  API_KEY :: "string option"
  MODEL_PATH :: string

record PredictionRequest =
  inputs :: "real list list"

record ModelInfo =
  name :: string
  version :: string
  algorithm :: string
  r2_score :: pyfloat
  trained_at :: string
  features :: int

subsection \<open>The globals\<close>

text \<open>
  \<open>REQUEST_COUNT\<close> maps the labels (status, model version) to the count of that child;
  \<open>MODEL_VERSION\<close> maps the labels (model name, version) to what the gauge was last set to,
  if ever. A label is kept as the value given to \<^verbatim>\<open>labels\<close>; the client library keys the
  children by \<^verbatim>\<open>str\<close> of it.
\<close>

record state =
  model :: "model option"
  model_metadata :: dict
  REQUEST_COUNT :: "string \<times> json \<Rightarrow> nat"
  MODEL_VERSION :: "json \<times> json \<Rightarrow> nat option"

definition no_requests :: "string \<times> json \<Rightarrow> nat" where
  "no_requests = (\<lambda>_. 0)"

definition no_gauge :: "json \<times> json \<Rightarrow> nat option" where
  "no_gauge = (\<lambda>_. None)"

text \<open>The module-level initialisation: \<^verbatim>\<open>model = None\<close>, \<^verbatim>\<open>model_metadata = {}\<close>.\<close>

definition initial_state :: state where
  "initial_state =
     \<lparr>model = None, model_metadata = [], REQUEST_COUNT = no_requests, MODEL_VERSION = no_gauge\<rparr>"

text \<open>\<^verbatim>\<open>model_metadata.get('version', 'unknown')\<close>, the label of every counter update.\<close>

definition version_label :: "state \<Rightarrow> json" where
  "version_label st = dict_get (model_metadata st) ''version'' (JStr ''unknown'')"

text \<open>\<^verbatim>\<open>REQUEST_COUNT.labels(status=s, model_version=...).inc()\<close>\<close>

definition inc_request :: "string \<Rightarrow> state \<Rightarrow> state" where
  "inc_request s st =
     st\<lparr>REQUEST_COUNT :=
          (REQUEST_COUNT st)((s, version_label st) := REQUEST_COUNT st (s, version_label st) + 1)\<rparr>"

text \<open>\<^verbatim>\<open>MODEL_VERSION.labels(model_name=..., version=...).set(v)\<close>\<close>

definition set_model_version :: "nat \<Rightarrow> state \<Rightarrow> state" where
  "set_model_version v st =
     st\<lparr>MODEL_VERSION :=
          (MODEL_VERSION st)
            ((dict_get (model_metadata st) ''model_name'' (JStr ''unknown''), version_label st)
               := Some v)\<rparr>"

subsection \<open>Security\<close>

text \<open>\<^verbatim>\<open>if API_KEY and key != API_KEY: raise HTTPException(401)\<close>. \<^verbatim>\<open>API_KEY\<close> is
  \<^verbatim>\<open>os.getenv("API_KEY")\<close>: \<open>None\<close> when unset, and falsy also when set to the empty
  string.\<close>

fun truthy :: "string option \<Rightarrow> bool" where
  "truthy None = False"
| "truthy (Some s) = (s \<noteq> [])"

definition verify_api_key :: "config \<Rightarrow> string option \<Rightarrow> exc + unit" where
  "verify_api_key cfg key =
     (if truthy (API_KEY cfg) \<and> key \<noteq> API_KEY cfg
      then Inl (HTTPException 401 (Text ''Invalid API key''))
      else Inr ())"

text \<open>\<^verbatim>\<open>Depends(verify_api_key)\<close>: FastAPI runs the dependency first, and the handler only
  when it returns.\<close>

definition depends ::
  "config \<Rightarrow> string option \<Rightarrow> (state \<Rightarrow> (exc + 'a) \<times> state) \<Rightarrow> state \<Rightarrow> (exc + 'a) \<times> state" where
  "depends cfg key handler st =
     (case verify_api_key cfg key of
        Inl e \<Rightarrow> (Inl e, st)
      | Inr _ \<Rightarrow> handler st)"

subsection \<open>Model loader\<close>

text \<open>
  \<^verbatim>\<open>load_model_metadata\<close>. A missing file only logs a warning. A decoded value that is not
  an object is first stored, then the log line's \<^verbatim>\<open>model_metadata.get\<close> raises
  AttributeError inside the \<^verbatim>\<open>try\<close>, and the handler stores \<^verbatim>\<open>{}\<close>.
\<close>

definition load_model_metadata :: "files \<Rightarrow> state \<Rightarrow> state" where
  "load_model_metadata fs st =
     (case metadata_file fs of
        Missing \<Rightarrow> st
      | Unreadable \<Rightarrow> st\<lparr>model_metadata := []\<rparr>
      | Content v \<Rightarrow>
          (case v of
             JObj d \<Rightarrow> st\<lparr>model_metadata := d\<rparr>
           | _ \<Rightarrow> st\<lparr>model_metadata := []\<rparr>))"

text \<open>\<^verbatim>\<open>load_model\<close>, the startup hook: it never raises. \<^verbatim>\<open>model = joblib.load(MODEL_PATH)\<close>
  stores whatever was decoded.\<close>

definition load_model :: "files \<Rightarrow> state \<Rightarrow> state" where
  "load_model fs st =
     (let st1 = load_model_metadata fs st in
      case model_file fs of
        Missing \<Rightarrow> set_model_version 0 st1
      | Content m \<Rightarrow> set_model_version 1 (st1\<lparr>model := m\<rparr>)
      | Unreadable \<Rightarrow> set_model_version 0 st1)"

subsection \<open>Routes\<close>

text \<open>
  For each route, a function for the handler and one for the endpoint (the handler behind
  its dependency). The result of an endpoint is what the handler returned or what was
  raised, with the state left behind; \<open>response_status\<close> of it is the status of the
  response.
\<close>

text \<open>\<^verbatim>\<open>GET /health\<close>\<close>

definition health :: "config \<Rightarrow> state \<Rightarrow> dict" where
  "health cfg st =
     (let status =
        [(''status'', JStr (if model st \<noteq> None then ''ok'' else ''degraded'')),
         (''model_loaded'', JBool (model st \<noteq> None)),
         (''model_path'', JStr (MODEL_PATH cfg)),
         (''metadata_loaded'', JBool (model_metadata st \<noteq> []))]
      in if model_metadata st \<noteq> []
         then dict_update status
           [(''model_name'', dict_get (model_metadata st) ''model_name'' JNull),
            (''model_version'', dict_get (model_metadata st) ''version'' JNull),
            (''r2_score'', dict_get (model_metadata st) ''r2_score'' JNull)]
         else status)"

definition get_health :: "config \<Rightarrow> state \<Rightarrow> (exc + dict) \<times> state" where
  "get_health cfg st = (Inr (health cfg st), st)"

text \<open>
  \<^verbatim>\<open>GET /model/info\<close>. \<open>ModelInfo\<close> is a pydantic model whose fields are not optional:
  its constructor rejects \<^verbatim>\<open>None\<close> for each of them and takes a value of the field's
  own type as it is. What it does with a value of another type, and what the encoder of
  the response makes of a float that is not a number, differ between pydantic versions and
  are the parameter \<open>c\<close>.
\<close>

record coercions =
  to_str :: "json \<Rightarrow> string option"
  to_float :: "json \<Rightarrow> pyfloat option"
  to_int :: "json \<Rightarrow> int option"
  dump_inf_nan :: "pyfloat \<Rightarrow> json"

fun str_field :: "coercions \<Rightarrow> json \<Rightarrow> string option" where
  "str_field c JNull = None"
| "str_field c (JStr s) = Some s"
| "str_field c v = to_str c v"

fun float_field :: "coercions \<Rightarrow> json \<Rightarrow> pyfloat option" where
  "float_field c JNull = None"
| "float_field c (JFloat r) = Some r"
| "float_field c v = to_float c v"

fun int_field :: "coercions \<Rightarrow> json \<Rightarrow> int option" where
  "int_field c JNull = None"
| "int_field c (JInt i) = Some i"
| "int_field c v = to_int c v"

definition ModelInfo_init ::
  "coercions \<Rightarrow> json \<Rightarrow> json \<Rightarrow> json \<Rightarrow> json \<Rightarrow> json \<Rightarrow> json \<Rightarrow> exc + ModelInfo" where
  "ModelInfo_init c n v a r t f =
     (case (str_field c n, str_field c v, str_field c a,
            float_field c r, str_field c t, int_field c f) of
        (Some n', Some v', Some a', Some r', Some t', Some f') \<Rightarrow>
          Inr \<lparr>name = n', version = v', algorithm = a', r2_score = r', trained_at = t',
               features = f'\<rparr>
      | _ \<Rightarrow> Inl ValidationError)"

definition model_info :: "coercions \<Rightarrow> state \<Rightarrow> (exc + ModelInfo) \<times> state" where
  "model_info c st =
     (if model_metadata st = []
      then (Inl (HTTPException 404 (Text ''Model metadata not available'')), st)
      else (ModelInfo_init c
              (dict_get (model_metadata st) ''model_name'' JNull)
              (dict_get (model_metadata st) ''version'' JNull)
              (dict_get (model_metadata st) ''algorithm'' JNull)
              (dict_get (model_metadata st) ''r2_score'' (JFloat (Finite 0)))
              (dict_get (model_metadata st) ''trained_at'' JNull)
              (dict_get (model_metadata st) ''feature_count'' (JInt 0)), st))"

text \<open>The handler returns the \<open>ModelInfo\<close> object; FastAPI's \<^verbatim>\<open>serialize_response\<close> turns it
  into a dict with \<^verbatim>\<open>jsonable_encoder\<close> before rendering it.\<close>

fun dump_float :: "coercions \<Rightarrow> pyfloat \<Rightarrow> json" where
  "dump_float c (Finite r) = JFloat (Finite r)"
| "dump_float c f = dump_inf_nan c f"

definition jsonable_encoder :: "coercions \<Rightarrow> ModelInfo \<Rightarrow> dict" where
  "jsonable_encoder c info =
     [(''name'', JStr (name info)),
      (''version'', JStr (version info)),
      (''algorithm'', JStr (algorithm info)),
      (''r2_score'', dump_float c (r2_score info)),
      (''trained_at'', JStr (trained_at info)),
      (''features'', JInt (features info))]"

definition serialize_response ::
  "coercions \<Rightarrow> (exc + ModelInfo) \<times> state \<Rightarrow> (exc + dict) \<times> state" where
  "serialize_response c r =
     (case r of
        (Inl e, st) \<Rightarrow> (Inl e, st)
      | (Inr info, st) \<Rightarrow> (Inr (jsonable_encoder c info), st))"

definition get_model_info ::
  "coercions \<Rightarrow> config \<Rightarrow> string option \<Rightarrow> state \<Rightarrow> (exc + dict) \<times> state" where
  "get_model_info c cfg key st =
     depends cfg key (\<lambda>st. serialize_response c (model_info c st)) st"

text \<open>
  \<^verbatim>\<open>POST /predict\<close>. \<open>check_rows\<close> is the \<^verbatim>\<open>for i, inp in enumerate(req.inputs)\<close> loop,
  \<open>predict_try\<close> the body of the \<^verbatim>\<open>try\<close>, and \<open>predict\<close> the handler with its
  \<^verbatim>\<open>except Exception\<close> clause, which catches whatever the body raises, the body's own
  \<open>HTTPException\<close>s included.
\<close>

fun check_rows :: "nat \<Rightarrow> json \<Rightarrow> real list list \<Rightarrow> exc option" where
  "check_rows i expected_features [] = None"
| "check_rows i expected_features (inp # rest) =
     (if \<not> len_eq (length inp) expected_features
      then Some (HTTPException 400 (Row_detail i (length inp) expected_features))
      else check_rows (Suc i) expected_features rest)"

definition predict_try :: "model \<Rightarrow> PredictionRequest \<Rightarrow> state \<Rightarrow> (exc + dict) \<times> state" where
  "predict_try m req st =
     (if inputs req = [] then (Inl (HTTPException 400 (Text ''Empty input'')), st)
      else
        let expected_features = dict_get (model_metadata st) ''feature_count'' (JInt 8) in
        case check_rows 0 expected_features (inputs req) of
          Some e \<Rightarrow> (Inl e, st)
        | None \<Rightarrow>
            (case predict_of m (inputs req) of
               Inl msg \<Rightarrow> (Inl (PyError msg), st)
             | Inr preds \<Rightarrow>
                 let st1 = inc_request ''success'' st in
                 (case tolist preds of
                    Inl msg \<Rightarrow> (Inl (PyError msg), st1)
                  | Inr l \<Rightarrow> (Inr [(''predictions'', l)], st1))))"

definition predict :: "PredictionRequest \<Rightarrow> state \<Rightarrow> (exc + dict) \<times> state" where
  "predict req st =
     (case model st of
        None \<Rightarrow> (Inl (HTTPException 503 (Text ''Model not loaded'')), inc_request ''error'' st)
      | Some m \<Rightarrow>
          (case predict_try m req st of
             (Inl e, st1) \<Rightarrow> (Inl (HTTPException 500 (Str e)), inc_request ''error'' st1)
           | (Inr body, st1) \<Rightarrow> (Inr body, st1)))"

definition post_predict ::
  "config \<Rightarrow> string option \<Rightarrow> PredictionRequest \<Rightarrow> state \<Rightarrow> (exc + dict) \<times> state" where
  "post_predict cfg key req st = depends cfg key (predict req) st"

text \<open>
  \<^verbatim>\<open>POST /model/reload\<close>. \<open>load_model\<close> does not raise, so the only exception the
  \<^verbatim>\<open>except Exception\<close> clause sees is the \<open>HTTPException\<close> of the \<^verbatim>\<open>else\<close> branch, which it
  wraps after storing \<^verbatim>\<open>old_model\<close> a second time.
\<close>

definition reload_model :: "files \<Rightarrow> state \<Rightarrow> (exc + dict) \<times> state" where
  "reload_model fs st =
     (let old_model = model st;
          st1 = load_model fs (st\<lparr>model := None\<rparr>)
      in if model st1 \<noteq> None
         then (Inr [(''status'', JStr ''reloaded''),
                    (''message'', JStr ''Model reloaded successfully'')], st1)
         else
           let st2 = st1\<lparr>model := old_model\<rparr>;
               e = HTTPException 500 (Text ''Failed to reload model'')
           in (Inl (HTTPException 500 (Str e)), st2\<lparr>model := old_model\<rparr>))"

definition post_model_reload ::
  "config \<Rightarrow> string option \<Rightarrow> files \<Rightarrow> state \<Rightarrow> (exc + dict) \<times> state" where
  "post_model_reload cfg key fs st = depends cfg key (reload_model fs) st"

section \<open>Concrete configurations, files and states\<close>

text \<open>The inputs at which the theorems below are evaluated.\<close>

definition default_path :: string where
  "default_path = ''/models/california-housing/latest/model.pkl''"

definition open_config :: config where
  "open_config = \<lparr>API_KEY = None, MODEL_PATH = default_path\<rparr>"

definition secret_config :: config where
  "secret_config = \<lparr>API_KEY = Some ''secret'', MODEL_PATH = default_path\<rparr>"

definition sum_model :: model where
  "sum_model =
     Model (\<lambda>rows. Inr (Ndarray (Inr (JList (map (\<lambda>r. JFloat (Finite (sum_list r))) rows)))))"

definition loaded_state :: state where
  "loaded_state = initial_state\<lparr>model := Some sum_model\<rparr>"

definition housing_metadata :: dict where
  "housing_metadata =
     [(''model_name'', JStr ''california-housing''), (''version'', JStr ''1.0''),
      (''feature_count'', JInt 8)]"

definition no_coercion :: coercions where
  "no_coercion =
     \<lparr>to_str = (\<lambda>_. None), to_float = (\<lambda>_. None), to_int = (\<lambda>_. None),
      dump_inf_nan = JFloat\<rparr>"

definition no_files :: files where
  "no_files = \<lparr>metadata_file = Missing, model_file = Missing\<rparr>"

definition wrong_length_request :: PredictionRequest where
  "wrong_length_request = \<lparr>inputs = [[1, 2, 3]]\<rparr>"

definition empty_request :: PredictionRequest where
  "empty_request = \<lparr>inputs = []\<rparr>"

definition housing_state :: state where
  "housing_state = initial_state\<lparr>model := Some sum_model, model_metadata := housing_metadata\<rparr>"

definition housing_files :: files where
  "housing_files =
     \<lparr>metadata_file = Content (JObj housing_metadata), model_file = Content (Some sum_model)\<rparr>"

definition corrupt_files :: files where
  "corrupt_files = \<lparr>metadata_file = Unreadable, model_file = Missing\<rparr>"

text \<open>A model whose \<^verbatim>\<open>predict\<close> raises, and one whose result has no \<^verbatim>\<open>tolist\<close>.\<close>

definition raising_model :: model where
  "raising_model = Model (\<lambda>rows. Inl ''X has 8 features, but the model expects 13'')"

definition listless_model :: model where
  "listless_model = Model (\<lambda>rows. Inr (Ndarray (Inl ''object has no attribute tolist'')))"

definition raising_state :: state where
  "raising_state = initial_state\<lparr>model := Some raising_model, model_metadata := housing_metadata\<rparr>"

definition listless_state :: state where
  "listless_state = initial_state\<lparr>model := Some listless_model, model_metadata := housing_metadata\<rparr>"

definition eight_values_request :: PredictionRequest where
  "eight_values_request = \<lparr>inputs = [[1, 2, 3, 4, 5, 6, 7, 8]]\<rparr>"

text \<open>Metadata of a model whose score is not a number, as \<^verbatim>\<open>json.dump\<close> writes it
  (\<^verbatim>\<open>"r2_score": NaN\<close>), and a metadata file holding it.\<close>

definition nan_metadata :: dict where
  "nan_metadata =
     [(''model_name'', JStr ''california-housing''), (''version'', JStr ''1.0''),
      (''r2_score'', JFloat NaN), (''feature_count'', JInt 8)]"

definition nan_files :: files where
  "nan_files = \<lparr>metadata_file = Content (JObj nan_metadata), model_file = Content (Some sum_model)\<rparr>"

section \<open>Properties of the handlers\<close>

subsection \<open>Authentication, counters and the loader\<close>

lemma depends_pass: "verify_api_key cfg key = Inr u \<Longrightarrow> depends cfg key h st = h st"
  by (simp add: depends_def)

lemma depends_fail: "verify_api_key cfg key = Inl e \<Longrightarrow> depends cfg key h st = (Inl e, st)"
  by (simp add: depends_def)

lemma verify_api_key_401:
  "verify_api_key cfg key = Inl e \<Longrightarrow> e = HTTPException 401 (Text ''Invalid API key'')"
  by (auto simp: verify_api_key_def split: if_splits)

lemma version_label_inc [simp]: "version_label (inc_request s st) = version_label st"
  by (simp add: version_label_def inc_request_def)

lemma model_inc [simp]: "model (inc_request s st) = model st"
  by (simp add: inc_request_def)

lemma metadata_inc [simp]: "model_metadata (inc_request s st) = model_metadata st"
  by (simp add: inc_request_def)

lemma count_inc:
  "REQUEST_COUNT (inc_request s st) =
     (REQUEST_COUNT st)((s, version_label st) := REQUEST_COUNT st (s, version_label st) + 1)"
  by (simp add: inc_request_def)

lemma load_model_metadata_frame:
  "model (load_model_metadata fs st) = model st"
  "REQUEST_COUNT (load_model_metadata fs st) = REQUEST_COUNT st"
  by (simp_all add: load_model_metadata_def split: disk_file.splits json.splits)

lemma load_model_metadata_model_upd:
  "model_metadata (load_model_metadata fs (st\<lparr>model := x\<rparr>)) = model_metadata (load_model_metadata fs st)"
  by (simp add: load_model_metadata_def split: disk_file.splits json.splits)

lemma load_model_count: "REQUEST_COUNT (load_model fs st) = REQUEST_COUNT st"
  by (simp add: load_model_def Let_def set_model_version_def load_model_metadata_frame
      split: disk_file.splits)

lemma load_model_metadata_eq:
  "model_metadata (load_model fs st) = model_metadata (load_model_metadata fs st)"
  by (simp add: load_model_def Let_def set_model_version_def split: disk_file.splits)

lemma load_model_model:
  "model (load_model fs st) = (case model_file fs of Content m \<Rightarrow> m | _ \<Rightarrow> model st)"
  by (simp add: load_model_def Let_def set_model_version_def load_model_metadata_frame
      split: disk_file.splits)

lemma reload_model_fails:
  "model_file fs = Missing \<or> model_file fs = Unreadable \<Longrightarrow>
   fst (reload_model fs st) = Inl (HTTPException 500 (Str (HTTPException 500 (Text ''Failed to reload model''))))
   \<and> model (snd (reload_model fs st)) = model st
   \<and> model_metadata (snd (reload_model fs st)) = model_metadata (load_model_metadata fs st)"
  by (auto simp: reload_model_def Let_def load_model_model load_model_metadata_eq load_model_metadata_model_upd)

lemma reload_model_fails_none:
  "model_file fs = Content None \<Longrightarrow>
   fst (reload_model fs st) = Inl (HTTPException 500 (Str (HTTPException 500 (Text ''Failed to reload model''))))
   \<and> model (snd (reload_model fs st)) = model st
   \<and> model_metadata (snd (reload_model fs st)) = model_metadata (load_model_metadata fs st)"
  by (simp add: reload_model_def Let_def load_model_model load_model_metadata_eq
      load_model_metadata_model_upd)

lemma reload_model_succeeds:
  "model_file fs = Content (Some m) \<Longrightarrow>
   response_status (fst (reload_model fs st)) = 200 \<and> model (snd (reload_model fs st)) = Some m"
  by (simp add: reload_model_def Let_def load_model_model)

lemma reload_model_count: "REQUEST_COUNT (snd (reload_model fs st)) = REQUEST_COUNT st"
  by (simp add: reload_model_def Let_def load_model_count)

lemma predict_loaded_empty:
  "model st = Some m \<Longrightarrow> inputs req = [] \<Longrightarrow>
   predict req st = (Inl (HTTPException 500 (Str (HTTPException 400 (Text ''Empty input'')))), inc_request ''error'' st)"
  by (simp add: predict_def predict_try_def)

lemma predict_loaded_bad_row:
  "model st = Some m \<Longrightarrow> inputs req \<noteq> [] \<Longrightarrow>
   check_rows 0 (dict_get (model_metadata st) ''feature_count'' (JInt 8)) (inputs req) = Some e \<Longrightarrow>
   predict req st = (Inl (HTTPException 500 (Str e)), inc_request ''error'' st)"
  by (simp add: predict_def predict_try_def)

lemma predict_loaded_good:
  "model st = Some m \<Longrightarrow> inputs req \<noteq> [] \<Longrightarrow>
   check_rows 0 (dict_get (model_metadata st) ''feature_count'' (JInt 8)) (inputs req) = None \<Longrightarrow>
   predict_of m (inputs req) = Inr preds \<Longrightarrow> tolist preds = Inr l \<Longrightarrow>
   predict req st = (Inr [(''predictions'', l)], inc_request ''success'' st)"
  by (simp add: predict_def predict_try_def)

lemma predict_unloaded:
  "model st = None \<Longrightarrow>
   predict req st = (Inl (HTTPException 503 (Text ''Model not loaded'')), inc_request ''error'' st)"
  by (simp add: predict_def)

lemma model_info_frame: "snd (model_info c st) = st"
  by (simp add: model_info_def)

lemma serialize_response_frame: "snd (serialize_response c r) = snd r"
  by (simp add: serialize_response_def split: prod.splits sum.splits)

lemma predict_loaded_raises:
  "model st = Some m \<Longrightarrow> inputs req \<noteq> [] \<Longrightarrow>
   check_rows 0 (dict_get (model_metadata st) ''feature_count'' (JInt 8)) (inputs req) = None \<Longrightarrow>
   predict_of m (inputs req) = Inl msg \<Longrightarrow>
   predict req st = (Inl (HTTPException 500 (Str (PyError msg))), inc_request ''error'' st)"
  by (simp add: predict_def predict_try_def)

lemma predict_loaded_tolist_raises:
  "model st = Some m \<Longrightarrow> inputs req \<noteq> [] \<Longrightarrow>
   check_rows 0 (dict_get (model_metadata st) ''feature_count'' (JInt 8)) (inputs req) = None \<Longrightarrow>
   predict_of m (inputs req) = Inr preds \<Longrightarrow> tolist preds = Inl msg \<Longrightarrow>
   predict req st =
     (Inl (HTTPException 500 (Str (PyError msg))), inc_request ''error'' (inc_request ''success'' st))"
  by (simp add: predict_def predict_try_def)

subsection \<open>Prediction with a model loaded\<close>

text \<open>
  C1. With a model loaded, an empty \<^verbatim>\<open>inputs\<close> or a row of the wrong length is to be
  answered with status 400, the model not being called. Evaluated at \<open>loaded_state\<close> (a
  model, no metadata, so 8 features are expected) without an API key configured: the
  handler raises its 400 inside its own \<^verbatim>\<open>try\<close>, the \<^verbatim>\<open>except Exception\<close> clause catches
  it, and the response is 500 with the 400 as its detail, for the empty request and for a
  row of 7 values alike. The model is not called: the error child of the counter is
  incremented, the success child is not.
\<close>

theorem predict_bad_shape_is_500:
  "response_status (fst (post_predict open_config None \<lparr>inputs = []\<rparr> loaded_state)) = 500 \<and>
   fst (post_predict open_config None \<lparr>inputs = []\<rparr> loaded_state)
     = Inl (HTTPException 500 (Str (HTTPException 400 (Text ''Empty input'')))) \<and>
   response_status (fst (post_predict open_config None \<lparr>inputs = [[1, 2, 3, 4, 5, 6, 7]]\<rparr> loaded_state)) = 500 \<and>
   fst (post_predict open_config None \<lparr>inputs = [[1, 2, 3, 4, 5, 6, 7]]\<rparr> loaded_state)
     = Inl (HTTPException 500 (Str (HTTPException 400 (Row_detail 0 7 (JInt 8))))) \<and>
   REQUEST_COUNT (snd (post_predict open_config None \<lparr>inputs = [[1, 2, 3, 4, 5, 6, 7]]\<rparr> loaded_state))
     (''error'', JStr ''unknown'') = 1 \<and>
   REQUEST_COUNT (snd (post_predict open_config None \<lparr>inputs = [[1, 2, 3, 4, 5, 6, 7]]\<rparr> loaded_state))
     (''success'', JStr ''unknown'') = 0"
  by (simp add: post_predict_def depends_def verify_api_key_def open_config_def loaded_state_def
      initial_state_def predict_def predict_try_def dict_get_def Let_def inc_request_def
      version_label_def no_requests_def)

subsection \<open>Reload\<close>

text \<open>
  C2. A reload request that passes authentication, finds the model file missing or
  unreadable, and is made while a model \<open>m\<close> is loaded, is answered with status 500 and
  leaves \<open>m\<close> in the holder; a later prediction request with well-shaped rows is answered
  with what \<open>m\<close> predicts.
\<close>

theorem reload_failure_restores_model:
  assumes "verify_api_key cfg key = Inr ()"
    and "model_file fs = Missing \<or> model_file fs = Unreadable"
    and "model st = Some m"
  shows "response_status (fst (post_model_reload cfg key fs st)) = 500 \<and>
         model (snd (post_model_reload cfg key fs st)) = Some m \<and>
         (\<forall>req preds l.
            inputs req \<noteq> [] \<and>
            check_rows 0 (dict_get (model_metadata (snd (post_model_reload cfg key fs st)))
                            ''feature_count'' (JInt 8)) (inputs req) = None \<and>
            predict_of m (inputs req) = Inr preds \<and> tolist preds = Inr l \<longrightarrow>
            fst (post_predict cfg key req (snd (post_model_reload cfg key fs st)))
              = Inr [(''predictions'', l)])"
proof -
  have r: "post_model_reload cfg key fs st = reload_model fs st"
    using assms(1) by (simp add: post_model_reload_def depends_pass)
  have m: "model (snd (reload_model fs st)) = Some m"
    using reload_model_fails [OF assms(2), of st] assms(3) by simp
  have s: "response_status (fst (reload_model fs st)) = 500"
    using reload_model_fails [OF assms(2), of st] by simp
  show ?thesis
    using assms(1) m s by (simp add: r post_predict_def depends_pass predict_loaded_good)
qed

theorem reload_failure_restores_model_witness:
  "verify_api_key open_config None = Inr () \<and>
   model_file no_files = Missing \<and>
   model loaded_state = Some sum_model \<and>
   response_status (fst (post_model_reload open_config None no_files loaded_state)) = 500 \<and>
   model (snd (post_model_reload open_config None no_files loaded_state)) = Some sum_model \<and>
   fst (post_predict open_config None \<lparr>inputs = [[1, 2, 3, 4, 5, 6, 7, 8]]\<rparr>
          (snd (post_model_reload open_config None no_files loaded_state)))
     = Inr [(''predictions'', JList [JFloat (Finite 36)])]"
proof -
  have a: "verify_api_key open_config None = Inr ()"
    by (simp add: verify_api_key_def open_config_def)
  have f: "model_file no_files = Missing \<or> model_file no_files = Unreadable"
    by (simp add: no_files_def)
  have l: "model loaded_state = Some sum_model"
    by (simp add: loaded_state_def)
  note t = reload_failure_restores_model [OF a f l]
  have md: "model_metadata (snd (post_model_reload open_config None no_files loaded_state)) = []"
  proof -
    have "model_metadata (snd (reload_model no_files loaded_state))
        = model_metadata (load_model_metadata no_files loaded_state)"
      using reload_model_fails [OF f, of loaded_state] by simp
    also have "\<dots> = []"
      by (simp add: load_model_metadata_def no_files_def loaded_state_def initial_state_def)
    finally show ?thesis using a by (simp add: post_model_reload_def depends_pass)
  qed
  have p: "fst (post_predict open_config None \<lparr>inputs = [[1, 2, 3, 4, 5, 6, 7, 8]]\<rparr>
          (snd (post_model_reload open_config None no_files loaded_state)))
     = Inr [(''predictions'', JList [JFloat (Finite 36)])]"
    using t [THEN conjunct2, THEN conjunct2, rule_format,
        of "\<lparr>inputs = [[1, 2, 3, 4, 5, 6, 7, 8]]\<rparr>" "Ndarray (Inr (JList [JFloat (Finite 36)]))"
          "JList [JFloat (Finite 36)]"]
    by (simp add: md dict_get_def sum_model_def)
  show ?thesis using a l t p by (simp add: no_files_def)
qed

subsection \<open>Prediction with no model loaded\<close>

text \<open>
  C3, as stated, at a request without a key while a secret is configured and no model is
  loaded: authentication answers first, with 401, and no counter moves.
\<close>

theorem predict_unloaded_unauthenticated:
  "model initial_state = None \<and>
   response_status (fst (post_predict secret_config None \<lparr>inputs = [[1, 2, 3, 4, 5, 6, 7, 8]]\<rparr> initial_state)) = 401 \<and>
   REQUEST_COUNT (snd (post_predict secret_config None \<lparr>inputs = [[1, 2, 3, 4, 5, 6, 7, 8]]\<rparr> initial_state))
     = REQUEST_COUNT initial_state"
  by (simp add: post_predict_def depends_def verify_api_key_def secret_config_def initial_state_def)

text \<open>
  C3, amended. A prediction request that passes authentication while no model is loaded is
  answered with status 503, and the state it leaves has the counter child labelled
  (\<^verbatim>\<open>error\<close>, metadata version or \<^verbatim>\<open>unknown\<close>) one higher and every other child as it
  was; model and metadata are untouched.
\<close>

theorem predict_unloaded_503_counted:
  assumes "verify_api_key cfg key = Inr ()" and "model st = None"
  shows "response_status (fst (post_predict cfg key req st)) = 503 \<and>
         REQUEST_COUNT (snd (post_predict cfg key req st))
           = (REQUEST_COUNT st)((''error'', version_label st)
                := REQUEST_COUNT st (''error'', version_label st) + 1) \<and>
         model (snd (post_predict cfg key req st)) = None \<and>
         model_metadata (snd (post_predict cfg key req st)) = model_metadata st"
  using assms by (simp add: post_predict_def depends_pass predict_unloaded count_inc)

theorem predict_unloaded_503_counted_witness:
  "verify_api_key open_config None = Inr () \<and> model initial_state = None \<and>
   response_status (fst (post_predict open_config None \<lparr>inputs = [[1, 2, 3, 4, 5, 6, 7, 8]]\<rparr> initial_state)) = 503 \<and>
   REQUEST_COUNT (snd (post_predict open_config None \<lparr>inputs = [[1, 2, 3, 4, 5, 6, 7, 8]]\<rparr> initial_state))
     (''error'', JStr ''unknown'') = 1 \<and>
   REQUEST_COUNT (snd (post_predict open_config None \<lparr>inputs = [[1, 2, 3, 4, 5, 6, 7, 8]]\<rparr> initial_state))
     (''success'', JStr ''unknown'') = 0"
proof -
  have a: "verify_api_key open_config None = Inr ()"
    by (simp add: verify_api_key_def open_config_def)
  have n: "model initial_state = None"
    by (simp add: initial_state_def)
  have v: "version_label initial_state = JStr ''unknown''"
    by (simp add: version_label_def dict_get_def initial_state_def)
  have c: "REQUEST_COUNT initial_state = no_requests"
    by (simp add: initial_state_def)
  show ?thesis
    using a n predict_unloaded_503_counted [OF a n, of "\<lparr>inputs = [[1, 2, 3, 4, 5, 6, 7, 8]]\<rparr>"]
    by (simp add: v c no_requests_def)
qed

text \<open>
  C10, as stated, at a request with a wrong key and an empty \<^verbatim>\<open>inputs\<close> while no model is
  loaded: the answer is 401, not 503.
\<close>

theorem predict_unloaded_bad_key_empty_inputs:
  "model initial_state = None \<and>
   response_status (fst (post_predict secret_config (Some ''wrong'') empty_request initial_state)) = 401"
  by (simp add: post_predict_def depends_def verify_api_key_def secret_config_def initial_state_def)

text \<open>
  C10, amended. A prediction request that passes authentication while no model is loaded
  is answered with the 503 of the model check whatever its body: two requests differing in
  their bodies get the same response and leave the same state, so no body yields 400.
\<close>

theorem predict_unloaded_ignores_body:
  assumes "verify_api_key cfg key = Inr ()" and "model st = None"
  shows "fst (post_predict cfg key req st) = Inl (HTTPException 503 (Text ''Model not loaded'')) \<and>
         response_status (fst (post_predict cfg key req st)) = 503 \<and>
         post_predict cfg key req st = post_predict cfg key req' st"
  using assms by (simp add: post_predict_def depends_pass predict_unloaded)

theorem predict_unloaded_ignores_body_witness:
  "verify_api_key open_config None = Inr () \<and> model initial_state = None \<and>
   inputs empty_request = [] \<and>
   response_status (fst (post_predict open_config None empty_request initial_state)) = 503 \<and>
   check_rows 0 (dict_get (model_metadata initial_state) ''feature_count'' (JInt 8))
     (inputs wrong_length_request) = Some (HTTPException 400 (Row_detail 0 3 (JInt 8))) \<and>
   response_status (fst (post_predict open_config None wrong_length_request initial_state)) = 503"
proof -
  have a: "verify_api_key open_config None = Inr ()"
    by (simp add: verify_api_key_def open_config_def)
  have n: "model initial_state = None"
    by (simp add: initial_state_def)
  have r: "check_rows 0 (dict_get (model_metadata initial_state) ''feature_count'' (JInt 8))
     (inputs wrong_length_request) = Some (HTTPException 400 (Row_detail 0 3 (JInt 8)))"
    by (simp add: initial_state_def dict_get_def wrong_length_request_def)
  show ?thesis
    using a n r predict_unloaded_ignores_body [OF a n, of empty_request]
      predict_unloaded_ignores_body [OF a n, of wrong_length_request]
    by (simp add: empty_request_def)
qed

subsection \<open>Metadata loader\<close>

text \<open>What the loader leaves in \<^verbatim>\<open>model_metadata\<close>, by what it finds on disk.\<close>

lemma load_model_metadata_cases:
  "model_metadata (load_model_metadata fs st) =
     (case metadata_file fs of
        Missing \<Rightarrow> model_metadata st
      | Unreadable \<Rightarrow> []
      | Content v \<Rightarrow> (case v of JObj d \<Rightarrow> d | _ \<Rightarrow> []))"
  by (simp add: load_model_metadata_def split: disk_file.splits json.splits)

text \<open>
  C4. The loader is to leave the metadata empty when the file is missing. Evaluated after
  a startup that loaded \<open>housing_metadata\<close>, with the file then gone: the loader, called by
  itself or through a reload request, leaves \<open>housing_metadata\<close> in place. (The branch for
  a file that does not parse does store the empty dict.)
\<close>

theorem load_model_metadata_missing_keeps_old:
  "model_metadata (load_model housing_files initial_state) = housing_metadata \<and>
   metadata_file no_files = Missing \<and>
   model_metadata (load_model_metadata no_files (load_model housing_files initial_state))
     = housing_metadata \<and>
   housing_metadata \<noteq> [] \<and>
   model_metadata (snd (post_model_reload open_config None no_files
      (load_model housing_files initial_state))) = housing_metadata"
  by (simp add: load_model_metadata_eq load_model_metadata_cases housing_files_def no_files_def
      housing_metadata_def post_model_reload_def depends_def verify_api_key_def open_config_def
      reload_model_fails load_model_metadata_model_upd)

subsection \<open>Model info\<close>

lemma model_info_no_metadata:
  "model_metadata st = [] \<Longrightarrow>
   model_info c st = (Inl (HTTPException 404 (Text ''Model metadata not available'')), st)"
  by (simp add: model_info_def)

text \<open>
  C7. With metadata present, fields absent from the file are to default to empty or zero
  values in the returned object. Evaluated at \<open>housing_metadata\<close>, which has a name, a
  version and a feature count but no \<^verbatim>\<open>algorithm\<close> and no \<^verbatim>\<open>trained_at\<close>: the handler
  passes \<^verbatim>\<open>None\<close> for them, the constructor of \<open>ModelInfo\<close> raises, and the response is
  500, whatever the constructor does with values of other types.
\<close>

theorem model_info_absent_text_field_fails:
  "model_metadata housing_state = housing_metadata \<and> housing_metadata \<noteq> [] \<and>
   map_of housing_metadata ''algorithm'' = None \<and>
   fst (get_model_info c open_config None housing_state) = Inl ValidationError \<and>
   response_status (fst (get_model_info c open_config None housing_state)) = 500"
  by (simp add: get_model_info_def depends_def verify_api_key_def open_config_def
      housing_state_def housing_metadata_def model_info_def ModelInfo_init_def dict_get_def
      serialize_response_def split: option.splits)

subsection \<open>Health\<close>

text \<open>
  The handler returns and changes nothing. Its body has \<^verbatim>\<open>status\<close> \<^verbatim>\<open>ok\<close> when a model is
  loaded and \<^verbatim>\<open>degraded\<close> otherwise, the two booleans, the model path, and the keys
  \<^verbatim>\<open>model_name\<close>, \<^verbatim>\<open>model_version\<close> and \<^verbatim>\<open>r2_score\<close> (with the metadata's values, null for
  a key the metadata lacks) exactly when the metadata is not empty; it has no other key.
\<close>

lemma health_body:
  "fst (get_health cfg st) = Inr (health cfg st) \<and>
   snd (get_health cfg st) = st \<and>
   map_of (health cfg st) ''status''
     = Some (JStr (if model st \<noteq> None then ''ok'' else ''degraded'')) \<and>
   map_of (health cfg st) ''model_loaded'' = Some (JBool (model st \<noteq> None)) \<and>
   map_of (health cfg st) ''model_path'' = Some (JStr (MODEL_PATH cfg)) \<and>
   map_of (health cfg st) ''metadata_loaded'' = Some (JBool (model_metadata st \<noteq> [])) \<and>
   map_of (health cfg st) ''model_name''
     = (if model_metadata st \<noteq> [] then Some (dict_get (model_metadata st) ''model_name'' JNull)
        else None) \<and>
   map_of (health cfg st) ''model_version''
     = (if model_metadata st \<noteq> [] then Some (dict_get (model_metadata st) ''version'' JNull)
        else None) \<and>
   map_of (health cfg st) ''r2_score''
     = (if model_metadata st \<noteq> [] then Some (dict_get (model_metadata st) ''r2_score'' JNull)
        else None) \<and>
   set (map fst (health cfg st))
     = {''status'', ''model_loaded'', ''model_path'', ''metadata_loaded''} \<union>
       (if model_metadata st \<noteq> [] then {''model_name'', ''model_version'', ''r2_score''} else {})"
  by (simp add: get_health_def health_def insert_commute)

text \<open>The response is 200 exactly when the three values taken from the metadata render.\<close>

lemma health_status:
  "response_status (fst (get_health cfg st)) =
     (if compliant (dict_get (model_metadata st) ''model_name'' JNull) \<and>
         compliant (dict_get (model_metadata st) ''version'' JNull) \<and>
         compliant (dict_get (model_metadata st) ''r2_score'' JNull)
      then 200 else 500)"
  by (cases "model_metadata st = []") (auto simp: get_health_def health_def dict_get_def Let_def)

lemma health_housing_state:
  "health open_config housing_state =
     [(''status'', JStr ''ok''), (''model_loaded'', JBool True),
      (''model_path'', JStr default_path), (''metadata_loaded'', JBool True),
      (''model_name'', JStr ''california-housing''), (''model_version'', JStr ''1.0''),
      (''r2_score'', JNull)] \<and>
   response_status (fst (get_health open_config housing_state)) = 200"
  by (simp add: get_health_def health_def dict_get_def housing_state_def housing_metadata_def
      open_config_def)

text \<open>
  C6. \<^verbatim>\<open>GET /health\<close> is to answer 200 whatever the model and the metadata are. Evaluated
  after a startup that found a model and the metadata file \<open>nan_files\<close>, whose score is
  NaN: the handler returns the body below with the NaN under \<^verbatim>\<open>r2_score\<close>, rendering that
  body raises, and the response is 500.
\<close>

theorem health_nan_score_is_500:
  "model_metadata (load_model nan_files initial_state) = nan_metadata \<and>
   model (load_model nan_files initial_state) = Some sum_model \<and>
   health open_config (load_model nan_files initial_state) =
     [(''status'', JStr ''ok''), (''model_loaded'', JBool True),
      (''model_path'', JStr default_path), (''metadata_loaded'', JBool True),
      (''model_name'', JStr ''california-housing''), (''model_version'', JStr ''1.0''),
      (''r2_score'', JFloat NaN)] \<and>
   fst (get_health open_config (load_model nan_files initial_state))
     = Inr (health open_config (load_model nan_files initial_state)) \<and>
   response_status (fst (get_health open_config (load_model nan_files initial_state))) = 500"
  by (simp add: load_model_metadata_eq load_model_metadata_cases load_model_model nan_files_def
      nan_metadata_def get_health_def health_def dict_get_def open_config_def)

subsection \<open>Authentication\<close>

text \<open>
  C8. With no secret configured (\<^verbatim>\<open>API_KEY\<close> unset or empty) every key passes, also none.
  With a secret \<open>s\<close> configured, a missing or different key raises the 401, which is the
  response of each of the three authenticated endpoints, and the key \<open>s\<close> passes. A
  request that passes is handled by the endpoint's handler (whose \<open>ModelInfo\<close> is then
  encoded).
\<close>

theorem verify_api_key_cases:
  "(API_KEY cfg = None \<or> API_KEY cfg = Some [] \<longrightarrow> verify_api_key cfg key = Inr ()) \<and>
   (API_KEY cfg = Some s \<and> s \<noteq> [] \<and> key \<noteq> Some s \<longrightarrow>
      verify_api_key cfg key = Inl (HTTPException 401 (Text ''Invalid API key'')) \<and>
      response_status (fst (get_model_info c cfg key st)) = 401 \<and>
      response_status (fst (post_predict cfg key req st)) = 401 \<and>
      response_status (fst (post_model_reload cfg key fs st)) = 401) \<and>
   (API_KEY cfg = Some s \<and> key = Some s \<longrightarrow> verify_api_key cfg key = Inr ()) \<and>
   (verify_api_key cfg key = Inr () \<longrightarrow>
      get_model_info c cfg key st = serialize_response c (model_info c st) \<and>
      post_predict cfg key req st = predict req st \<and>
      post_model_reload cfg key fs st = reload_model fs st)"
  by (auto simp: verify_api_key_def get_model_info_def post_predict_def post_model_reload_def
      depends_def)

theorem verify_api_key_cases_witness:
  "API_KEY open_config = None \<and> verify_api_key open_config (Some ''anything'') = Inr () \<and>
   API_KEY secret_config = Some ''secret'' \<and>
   verify_api_key secret_config None = Inl (HTTPException 401 (Text ''Invalid API key'')) \<and>
   verify_api_key secret_config (Some ''wrong'') = Inl (HTTPException 401 (Text ''Invalid API key'')) \<and>
   response_status (fst (get_model_info no_coercion secret_config (Some ''wrong'') housing_state)) = 401 \<and>
   verify_api_key secret_config (Some ''secret'') = Inr () \<and>
   post_predict secret_config (Some ''secret'') empty_request housing_state
     = predict empty_request housing_state"
proof -
  have o: "API_KEY open_config = None" by (simp add: open_config_def)
  have k: "API_KEY secret_config = Some ''secret''" by (simp add: secret_config_def)
  note t1 = verify_api_key_cases [where cfg = open_config and s = "''secret''" and key = "Some ''anything''"
      and c = no_coercion and st = housing_state and req = empty_request and fs = no_files]
  note t2 = verify_api_key_cases [where cfg = secret_config and s = "''secret''" and key = "None"
      and c = no_coercion and st = housing_state and req = empty_request and fs = no_files]
  note t3 = verify_api_key_cases [where cfg = secret_config and s = "''secret''" and key = "Some ''wrong''"
      and c = no_coercion and st = housing_state and req = empty_request and fs = no_files]
  note t4 = verify_api_key_cases [where cfg = secret_config and s = "''secret''" and key = "Some ''secret''"
      and c = no_coercion and st = housing_state and req = empty_request and fs = no_files]
  show ?thesis using o k t1 t2 t3 t4 by simp
qed

subsection \<open>Metadata after a failed reload\<close>

text \<open>
  C9. When a reload request is answered with 500 (the reload was attempted and failed; a
  request stopped by authentication gets 401 and loads nothing), the model in the holder is
  the one from before the request, and the metadata is what the attempt's
  \<open>load_model_metadata\<close> produced from the state before the request, not restored.
\<close>

theorem reload_failure_keeps_new_metadata:
  assumes "response_status (fst (post_model_reload cfg key fs st)) = 500"
  shows "model (snd (post_model_reload cfg key fs st)) = model st \<and>
         model_metadata (snd (post_model_reload cfg key fs st))
           = model_metadata (load_model_metadata fs st)"
proof (cases "verify_api_key cfg key")
  case (Inl e)
  then show ?thesis
    using assms verify_api_key_401 [OF Inl] by (simp add: post_model_reload_def depends_fail)
next
  case (Inr u)
  then have r: "post_model_reload cfg key fs st = reload_model fs st"
    by (simp add: post_model_reload_def depends_pass)
  show ?thesis
  proof (cases "model_file fs")
    case Missing
    then show ?thesis using reload_model_fails [of fs st] by (simp add: r)
  next
    case Unreadable
    then show ?thesis using reload_model_fails [of fs st] by (simp add: r)
  next
    case (Content loaded)
    show ?thesis
    proof (cases loaded)
      case None
      then show ?thesis using Content reload_model_fails_none [of fs st] by (simp add: r)
    next
      case (Some m)
      then have "model_file fs = Content (Some m)" using Content by simp
      then show ?thesis using assms reload_model_succeeds [of fs m st] by (simp add: r)
    qed
  qed
qed

theorem reload_failure_keeps_new_metadata_witness:
  "response_status (fst (post_model_reload open_config None corrupt_files housing_state)) = 500 \<and>
   model (snd (post_model_reload open_config None corrupt_files housing_state)) = Some sum_model \<and>
   model_metadata housing_state = housing_metadata \<and>
   model_metadata (snd (post_model_reload open_config None corrupt_files housing_state)) = [] \<and>
   housing_metadata \<noteq> []"
proof -
  have s: "response_status (fst (post_model_reload open_config None corrupt_files housing_state)) = 500"
    by (simp add: post_model_reload_def depends_def verify_api_key_def open_config_def
        reload_model_fails corrupt_files_def)
  have l: "model_metadata (load_model_metadata corrupt_files housing_state) = []"
    by (simp add: load_model_metadata_cases corrupt_files_def)
  have m: "model housing_state = Some sum_model"
    by (simp add: housing_state_def)
  have d: "model_metadata housing_state = housing_metadata"
    by (simp add: housing_state_def)
  have n: "housing_metadata \<noteq> []"
    by (simp add: housing_metadata_def)
  show ?thesis
    using s reload_failure_keeps_new_metadata [OF s] by (simp add: l m d n)
qed

subsection \<open>The error counter\<close>

text \<open>
  C5, as stated, at \<^verbatim>\<open>GET /model/info\<close> in the initial state with no API key configured:
  the response is 404 and the request counter is what it was.
\<close>

theorem model_info_404_not_counted:
  "response_status (fst (get_model_info no_coercion open_config None initial_state)) = 404 \<and>
   REQUEST_COUNT (snd (get_model_info no_coercion open_config None initial_state))
     = REQUEST_COUNT initial_state"
  by (simp add: get_model_info_def depends_def verify_api_key_def open_config_def model_info_def
      initial_state_def serialize_response_def)

text \<open>
  C5, amended. A prediction request that passes authentication leaves the counter child
  labelled (\<^verbatim>\<open>error\<close>, version label) exactly one higher when it is answered with 503
  because no model is loaded, and when it is answered with 500 because, on well-shaped
  rows, the model's \<^verbatim>\<open>predict\<close> or the \<^verbatim>\<open>tolist\<close> of its result raises. A prediction
  request stopped by authentication is answered with 401 and leaves the counter as it was,
  and so do \<^verbatim>\<open>GET /model/info\<close> and \<^verbatim>\<open>POST /model/reload\<close> whatever their response.
\<close>

theorem errors_counted_in_predict_only:
  "(verify_api_key cfg key = Inr () \<and> model st = None \<longrightarrow>
      response_status (fst (post_predict cfg key req st)) = 503 \<and>
      REQUEST_COUNT (snd (post_predict cfg key req st)) (''error'', version_label st)
        = REQUEST_COUNT st (''error'', version_label st) + 1) \<and>
   (verify_api_key cfg key = Inr () \<and> model st = Some m \<and> inputs req \<noteq> [] \<and>
    check_rows 0 (dict_get (model_metadata st) ''feature_count'' (JInt 8)) (inputs req) = None \<and>
    (predict_of m (inputs req) = Inl msg \<or>
     predict_of m (inputs req) = Inr preds \<and> tolist preds = Inl msg) \<longrightarrow>
      response_status (fst (post_predict cfg key req st)) = 500 \<and>
      REQUEST_COUNT (snd (post_predict cfg key req st)) (''error'', version_label st)
        = REQUEST_COUNT st (''error'', version_label st) + 1) \<and>
   (verify_api_key cfg key \<noteq> Inr () \<longrightarrow>
      response_status (fst (post_predict cfg key req st)) = 401 \<and>
      REQUEST_COUNT (snd (post_predict cfg key req st)) = REQUEST_COUNT st) \<and>
   REQUEST_COUNT (snd (get_model_info c cfg key st)) = REQUEST_COUNT st \<and>
   REQUEST_COUNT (snd (post_model_reload cfg key fs st)) = REQUEST_COUNT st"
proof (cases "verify_api_key cfg key")
  case (Inl e)
  then show ?thesis
    using verify_api_key_401 [OF Inl]
    by (simp add: post_predict_def get_model_info_def post_model_reload_def depends_fail)
next
  case (Inr u)
  have unloaded: "model st = None \<Longrightarrow>
      response_status (fst (predict req st)) = 503 \<and>
      REQUEST_COUNT (snd (predict req st)) (''error'', version_label st)
        = REQUEST_COUNT st (''error'', version_label st) + 1"
    by (simp add: predict_unloaded count_inc)
  have raises: "model st = Some m \<Longrightarrow> inputs req \<noteq> [] \<Longrightarrow>
      check_rows 0 (dict_get (model_metadata st) ''feature_count'' (JInt 8)) (inputs req) = None \<Longrightarrow>
      predict_of m (inputs req) = Inl msg \<Longrightarrow>
      response_status (fst (predict req st)) = 500 \<and>
      REQUEST_COUNT (snd (predict req st)) (''error'', version_label st)
        = REQUEST_COUNT st (''error'', version_label st) + 1"
    by (simp add: predict_loaded_raises count_inc)
  have listless: "model st = Some m \<Longrightarrow> inputs req \<noteq> [] \<Longrightarrow>
      check_rows 0 (dict_get (model_metadata st) ''feature_count'' (JInt 8)) (inputs req) = None \<Longrightarrow>
      predict_of m (inputs req) = Inr preds \<Longrightarrow> tolist preds = Inl msg \<Longrightarrow>
      response_status (fst (predict req st)) = 500 \<and>
      REQUEST_COUNT (snd (predict req st)) (''error'', version_label st)
        = REQUEST_COUNT st (''error'', version_label st) + 1"
    by (simp add: predict_loaded_tolist_raises count_inc)
  have frames: "REQUEST_COUNT (snd (get_model_info c cfg key st)) = REQUEST_COUNT st \<and>
      REQUEST_COUNT (snd (post_model_reload cfg key fs st)) = REQUEST_COUNT st"
    using Inr by (simp add: get_model_info_def post_model_reload_def depends_pass
        serialize_response_frame model_info_frame reload_model_count)
  have p: "post_predict cfg key req st = predict req st"
    using Inr by (simp add: post_predict_def depends_pass)
  show ?thesis
    using unloaded raises listless frames unfolding p by (simp add: Inr) blast
qed

theorem errors_counted_in_predict_only_witness:
  "verify_api_key open_config None = Inr () \<and>
   model initial_state = None \<and>
   response_status (fst (post_predict open_config None eight_values_request initial_state)) = 503 \<and>
   REQUEST_COUNT (snd (post_predict open_config None eight_values_request initial_state))
     (''error'', JStr ''unknown'') = 1 \<and>
   model raising_state = Some raising_model \<and>
   response_status (fst (post_predict open_config None eight_values_request raising_state)) = 500 \<and>
   REQUEST_COUNT (snd (post_predict open_config None eight_values_request raising_state))
     (''error'', JStr ''1.0'') = 1 \<and>
   model listless_state = Some listless_model \<and>
   response_status (fst (post_predict open_config None eight_values_request listless_state)) = 500 \<and>
   REQUEST_COUNT (snd (post_predict open_config None eight_values_request listless_state))
     (''error'', JStr ''1.0'') = 1 \<and>
   verify_api_key secret_config None \<noteq> Inr () \<and>
   response_status (fst (post_predict secret_config None eight_values_request raising_state)) = 401 \<and>
   REQUEST_COUNT (snd (post_predict secret_config None eight_values_request raising_state))
     (''error'', JStr ''1.0'') = 0 \<and>
   response_status (fst (post_model_reload open_config None no_files raising_state)) = 500 \<and>
   REQUEST_COUNT (snd (post_model_reload open_config None no_files raising_state))
     (''error'', JStr ''1.0'') = 0"
proof -
  have a: "verify_api_key open_config None = Inr ()"
    by (simp add: verify_api_key_def open_config_def)
  have b: "verify_api_key secret_config None \<noteq> Inr ()"
    by (simp add: verify_api_key_def secret_config_def)
  have n: "model initial_state = None"
    by (simp add: initial_state_def)
  have vi: "version_label initial_state = JStr ''unknown''"
    by (simp add: version_label_def dict_get_def initial_state_def)
  have ci: "REQUEST_COUNT initial_state = no_requests"
    by (simp add: initial_state_def)
  have q: "inputs eight_values_request \<noteq> []"
    by (simp add: eight_values_request_def)
  have mr: "model raising_state = Some raising_model"
    by (simp add: raising_state_def)
  have kr: "check_rows 0 (dict_get (model_metadata raising_state) ''feature_count'' (JInt 8))
      (inputs eight_values_request) = None"
    by (simp add: raising_state_def housing_metadata_def dict_get_def eight_values_request_def)
  have pr: "predict_of raising_model (inputs eight_values_request)
      = Inl ''X has 8 features, but the model expects 13''"
    by (simp add: raising_model_def)
  have vr: "version_label raising_state = JStr ''1.0''"
    by (simp add: version_label_def dict_get_def raising_state_def housing_metadata_def)
  have cr: "REQUEST_COUNT raising_state = no_requests"
    by (simp add: raising_state_def initial_state_def)
  have ml: "model listless_state = Some listless_model"
    by (simp add: listless_state_def)
  have kl: "check_rows 0 (dict_get (model_metadata listless_state) ''feature_count'' (JInt 8))
      (inputs eight_values_request) = None"
    by (simp add: listless_state_def housing_metadata_def dict_get_def eight_values_request_def)
  have pl: "predict_of listless_model (inputs eight_values_request)
      = Inr (Ndarray (Inl ''object has no attribute tolist''))"
    by (simp add: listless_model_def)
  have vl: "version_label listless_state = JStr ''1.0''"
    by (simp add: version_label_def dict_get_def listless_state_def housing_metadata_def)
  have cl: "REQUEST_COUNT listless_state = no_requests"
    by (simp add: listless_state_def initial_state_def)
  have r: "response_status (fst (post_model_reload open_config None no_files raising_state)) = 500"
    using a by (simp add: post_model_reload_def depends_pass reload_model_fails no_files_def)
  note t1 = errors_counted_in_predict_only [where cfg = open_config and key = None
      and req = eight_values_request and st = initial_state]
  note t2 = errors_counted_in_predict_only [where cfg = open_config and key = None
      and req = eight_values_request and st = raising_state and m = raising_model
      and msg = "''X has 8 features, but the model expects 13''"
      and c = no_coercion and fs = no_files]
  note t3 = errors_counted_in_predict_only [where cfg = open_config and key = None
      and req = eight_values_request and st = listless_state and m = listless_model
      and msg = "''object has no attribute tolist''"
      and preds = "Ndarray (Inl ''object has no attribute tolist'')"]
  note t4 = errors_counted_in_predict_only [where cfg = secret_config and key = None
      and req = eight_values_request and st = raising_state
      and c = no_coercion and fs = no_files]
  have w1: "response_status (fst (post_predict open_config None eight_values_request initial_state)) = 503 \<and>
      REQUEST_COUNT (snd (post_predict open_config None eight_values_request initial_state))
        (''error'', JStr ''unknown'') = 1"
    using t1 a n by (simp add: vi ci no_requests_def)
  have w2: "response_status (fst (post_predict open_config None eight_values_request raising_state)) = 500 \<and>
      REQUEST_COUNT (snd (post_predict open_config None eight_values_request raising_state))
        (''error'', JStr ''1.0'') = 1 \<and>
      REQUEST_COUNT (snd (post_model_reload open_config None no_files raising_state))
        (''error'', JStr ''1.0'') = 0"
    using t2 a mr q kr pr by (simp add: vr cr no_requests_def)
  have w3: "response_status (fst (post_predict open_config None eight_values_request listless_state)) = 500 \<and>
      REQUEST_COUNT (snd (post_predict open_config None eight_values_request listless_state))
        (''error'', JStr ''1.0'') = 1"
    using t3 a ml q kl pl by (simp add: vl cl no_requests_def)
  have w4: "response_status (fst (post_predict secret_config None eight_values_request raising_state)) = 401 \<and>
      REQUEST_COUNT (snd (post_predict secret_config None eight_values_request raising_state))
        (''error'', JStr ''1.0'') = 0"
    using t4 b by (simp add: cr no_requests_def)
  show ?thesis using a b n mr ml r w1 w2 w3 w4 by simp
qed

end
